theory Spec2Isabelle
  imports Main "HOL-Library.Word" "HOL-Library.Sublist"
begin

section \<open>The pinned-memory gateway of csrc/mem_alloc.cpp\<close>

text \<open>
  The translation unit defines two functions, \<^verbatim>\<open>alloc_pinned_ptr\<close> and
  \<^verbatim>\<open>free_pinned_ptr\<close>. Each makes one call into the GPU runtime
  (\<^verbatim>\<open>cudaHostAlloc\<close>, \<^verbatim>\<open>cudaFreeHost\<close>), compares the returned status with
  \<^verbatim>\<open>cudaSuccess\<close> and throws \<^verbatim>\<open>std::runtime_error\<close> otherwise.

  The runtime is an external collaborator. It is a parameter of the model: a pair of
  functions over a runtime state of any type. A call log beside the runtime state
  records which runtime calls the two functions issue, and with which arguments.
\<close>

subsection \<open>Machine types\<close>

text \<open>
  The LP64 platform of the CUDA toolkit: \<^verbatim>\<open>size_t\<close> and \<^verbatim>\<open>uintptr_t\<close> are 64 bits wide,
  \<^verbatim>\<open>unsigned int\<close> is 32 bits wide. A \<^verbatim>\<open>void*\<close> is a type of its own, holding 64
  address bits.
\<close>

type_synonym size_t = "64 word"
type_synonym uintptr_t = "64 word"
type_synonym unsigned_int = "32 word"

datatype void_ptr = Ptr (addr_bits: "64 word")

definition nullptr :: void_ptr where
  "nullptr = Ptr 0"

text \<open>
  \<^verbatim>\<open>reinterpret_cast<uintptr_t>(ptr)\<close> and \<^verbatim>\<open>reinterpret_cast<void*>(ptr)\<close>: the
  address bits are kept, the type changes.
\<close>

definition reinterpret_cast_uintptr_t :: "void_ptr \<Rightarrow> uintptr_t" where
  "reinterpret_cast_uintptr_t p = addr_bits p"

definition reinterpret_cast_void_ptr :: "uintptr_t \<Rightarrow> void_ptr" where
  "reinterpret_cast_void_ptr a = Ptr a"

text \<open>
  \<^verbatim>\<open>cudaError_t\<close> is the status enumeration of \<^verbatim>\<open>cuda_runtime.h\<close>, a header of the
  CUDA toolkit that the repository includes and does not contain. Its values are kept
  as 32-bit patterns; the header gives \<^verbatim>\<open>cudaSuccess\<close> the value 0. In
  \<^verbatim>\<open>std::to_string(err)\<close> the enumeration is promoted to \<^verbatim>\<open>int\<close>, so the status is
  read as a signed 32-bit number (\<open>sint\<close>).
\<close>

type_synonym cudaError_t = "32 word"

definition cudaSuccess :: cudaError_t where
  "cudaSuccess = 0"

subsection \<open>\<^verbatim>\<open>std::to_string(int)\<close>\<close>

definition digit_char :: "nat \<Rightarrow> char" where
  "digit_char d = ''0123456789'' ! d"

fun dec_digits :: "nat \<Rightarrow> string" where
  "dec_digits n =
     (if n < 10 then [digit_char n]
      else dec_digits (n div 10) @ [digit_char (n mod 10)])"

declare dec_digits.simps [simp del]

definition to_string :: "int \<Rightarrow> string" where
  "to_string i = (if i < 0 then CHR ''-'' # dec_digits (nat (- i)) else dec_digits (nat i))"

text \<open>Reading a decimal numeral back, used to state that the text is the decimal one.\<close>

definition digit_value :: "char \<Rightarrow> nat" where
  "digit_value c = of_char c - 48"

definition is_digit :: "char \<Rightarrow> bool" where
  "is_digit c = (c \<in> set ''0123456789'')"

definition read_digits :: "string \<Rightarrow> nat" where
  "read_digits s = foldl (\<lambda>acc c. 10 * acc + digit_value c) 0 s"

definition read_decimal :: "string \<Rightarrow> int" where
  "read_decimal s =
     (case s of
        [] \<Rightarrow> 0
      | c # cs \<Rightarrow> if c = CHR ''-'' then - int (read_digits cs) else int (read_digits s))"

definition is_decimal_numeral :: "string \<Rightarrow> bool" where
  "is_decimal_numeral s =
     (case s of
        [] \<Rightarrow> False
      | c # cs \<Rightarrow> if c = CHR ''-'' then cs \<noteq> [] \<and> list_all is_digit cs else list_all is_digit s)"

subsection \<open>Exceptions\<close>

text \<open>Both functions throw \<^verbatim>\<open>std::runtime_error\<close>, built from a message string.\<close>

datatype exn = runtime_error (what: string)

subsection \<open>The runtime and the world\<close>

text \<open>
  \<^verbatim>\<open>cudaHostAlloc(&ptr, size, flags)\<close> receives the address of the local \<^verbatim>\<open>ptr\<close>: the
  runtime function takes the pointer stored there before the call and returns the one
  stored there after it, beside the status and the runtime's next state.
\<close>

record 's runtime =
  cudaHostAlloc :: "'s \<Rightarrow> void_ptr \<Rightarrow> size_t \<Rightarrow> unsigned_int \<Rightarrow> cudaError_t \<times> void_ptr \<times> 's"
  cudaFreeHost :: "'s \<Rightarrow> void_ptr \<Rightarrow> cudaError_t \<times> 's"

datatype runtime_call =
    HostAlloc_call size_t unsigned_int
  | FreeHost_call void_ptr

record 's world =
  pool :: 's
  trace :: "runtime_call list"

definition invoke_cudaHostAlloc ::
  "'s runtime \<Rightarrow> void_ptr \<Rightarrow> size_t \<Rightarrow> unsigned_int \<Rightarrow> 's world \<Rightarrow> cudaError_t \<times> void_ptr \<times> 's world" where
  "invoke_cudaHostAlloc R p sz flags w =
     (case cudaHostAlloc R (pool w) p sz flags of
        (err, p', s') \<Rightarrow> (err, p', \<lparr>pool = s', trace = trace w @ [HostAlloc_call sz flags]\<rparr>))"

definition invoke_cudaFreeHost ::
  "'s runtime \<Rightarrow> void_ptr \<Rightarrow> 's world \<Rightarrow> cudaError_t \<times> 's world" where
  "invoke_cudaFreeHost R p w =
     (case cudaFreeHost R (pool w) p of
        (err, s') \<Rightarrow> (err, \<lparr>pool = s', trace = trace w @ [FreeHost_call p]\<rparr>))"

subsection \<open>The two functions\<close>

definition alloc_pinned_ptr ::
  "'s runtime \<Rightarrow> size_t \<Rightarrow> unsigned_int \<Rightarrow> 's world \<Rightarrow> (exn + uintptr_t) \<times> 's world" where
  "alloc_pinned_ptr R sz flags w =
     (let ptr = nullptr in
      case invoke_cudaHostAlloc R ptr sz flags w of
        (err, ptr, w') \<Rightarrow>
          if err \<noteq> cudaSuccess
          then (Inl (runtime_error (''cudaHostAlloc failed: '' @ to_string (sint err))), w')
          else (Inr (reinterpret_cast_uintptr_t ptr), w'))"

definition free_pinned_ptr ::
  "'s runtime \<Rightarrow> uintptr_t \<Rightarrow> 's world \<Rightarrow> (exn + unit) \<times> 's world" where
  "free_pinned_ptr R ptr w =
     (case invoke_cudaFreeHost R (reinterpret_cast_void_ptr ptr) w of
        (err, w') \<Rightarrow>
          if err \<noteq> cudaSuccess
          then (Inl (runtime_error (''cudaFreeHost failed: '' @ to_string (sint err))), w')
          else (Inr (), w'))"

subsection \<open>A simulated runtime\<close>

text \<open>
  A small stand-in for the GPU runtime, to run the two functions on concrete inputs.
  Its state is the list of live pinned base addresses. A request of zero bytes succeeds
  and stores nothing; a request above \<open>sim_capacity\<close> bytes or with a flag bit outside
  the low four fails; any other request hands out a fresh page-aligned address. Freeing
  the null pointer is a successful no-operation; freeing a live address succeeds and
  retires it; freeing anything else fails.
\<close>

definition cudaErrorInvalidValue :: cudaError_t where
  "cudaErrorInvalidValue = 1"

definition cudaErrorMemoryAllocation :: cudaError_t where
  "cudaErrorMemoryAllocation = 2"

definition sim_capacity :: size_t where
  "sim_capacity = 1048576"

definition sim_fresh :: "64 word list \<Rightarrow> 64 word" where
  "sim_fresh live = 4096 * (1 + of_nat (length live))"

definition sim_cudaHostAlloc ::
  "64 word list \<Rightarrow> void_ptr \<Rightarrow> size_t \<Rightarrow> unsigned_int \<Rightarrow> cudaError_t \<times> void_ptr \<times> 64 word list" where
  "sim_cudaHostAlloc live p sz flags =
     (if 15 < flags then (cudaErrorInvalidValue, p, live)
      else if sz = 0 then (cudaSuccess, p, live)
      else if sim_capacity < sz then (cudaErrorMemoryAllocation, p, live)
      else (cudaSuccess, Ptr (sim_fresh live), sim_fresh live # live))"

definition sim_cudaFreeHost ::
  "64 word list \<Rightarrow> void_ptr \<Rightarrow> cudaError_t \<times> 64 word list" where
  "sim_cudaFreeHost live p =
     (if p = nullptr then (cudaSuccess, live)
      else if addr_bits p \<in> set live then (cudaSuccess, remove1 (addr_bits p) live)
      else (cudaErrorInvalidValue, live))"

definition sim_runtime :: "64 word list runtime" where
  "sim_runtime = \<lparr>cudaHostAlloc = sim_cudaHostAlloc, cudaFreeHost = sim_cudaFreeHost\<rparr>"

definition sim_start :: "64 word list world" where
  "sim_start = \<lparr>pool = [], trace = []\<rparr>"

definition busy_world :: "64 word list world" where
  "busy_world = \<lparr>pool = [4096], trace = [HostAlloc_call 4096 0]\<rparr>"

text \<open>A variant whose \<^verbatim>\<open>cudaFreeHost\<close> rejects every pointer that is not live, null included.\<close>

definition strict_cudaFreeHost ::
  "64 word list \<Rightarrow> void_ptr \<Rightarrow> cudaError_t \<times> 64 word list" where
  "strict_cudaFreeHost live p =
     (if addr_bits p \<in> set live then (cudaSuccess, remove1 (addr_bits p) live)
      else (cudaErrorInvalidValue, live))"

definition strict_runtime :: "64 word list runtime" where
  "strict_runtime = \<lparr>cudaHostAlloc = sim_cudaHostAlloc, cudaFreeHost = strict_cudaFreeHost\<rparr>"

subsection \<open>An assumption on the runtime\<close>

text \<open>
  The runtime contract behind the round trip: when a request for a positive number of
  bytes succeeds, the pointer the runtime stored is live, and freeing a live pointer in
  the state the allocation left succeeds.
\<close>

definition runtime_frees_live :: "'s runtime \<Rightarrow> bool" where
  "runtime_frees_live R \<longleftrightarrow>
     (\<forall>s p0 sz flags p s'.
        0 < sz \<longrightarrow> cudaHostAlloc R s p0 sz flags = (cudaSuccess, p, s') \<longrightarrow>
        fst (cudaFreeHost R s' p) = cudaSuccess)"

subsection \<open>A recording runtime\<close>

text \<open>
  A second stand-in, whose state is the list of pointers \<^verbatim>\<open>cudaFreeHost\<close> has received,
  in order. It shows on a concrete run which pointer reaches the runtime itself. Freeing
  the null pointer is rejected, anything else accepted; it never allocates.
\<close>

definition rec_cudaHostAlloc ::
  "void_ptr list \<Rightarrow> void_ptr \<Rightarrow> size_t \<Rightarrow> unsigned_int \<Rightarrow> cudaError_t \<times> void_ptr \<times> void_ptr list" where
  "rec_cudaHostAlloc received p sz flags = (cudaErrorMemoryAllocation, p, received)"

definition rec_cudaFreeHost :: "void_ptr list \<Rightarrow> void_ptr \<Rightarrow> cudaError_t \<times> void_ptr list" where
  "rec_cudaFreeHost received p =
     (if p = nullptr then cudaErrorInvalidValue else cudaSuccess, received @ [p])"

definition recording_runtime :: "void_ptr list runtime" where
  "recording_runtime = \<lparr>cudaHostAlloc = rec_cudaHostAlloc, cudaFreeHost = rec_cudaFreeHost\<rparr>"

definition rec_start :: "void_ptr list world" where
  "rec_start = \<lparr>pool = [], trace = []\<rparr>"

section \<open>Auxiliary facts\<close>

subsection \<open>Decimal text\<close>

lemma digit_cases:
  "d < 10 \<Longrightarrow> d = 0 \<or> d = 1 \<or> d = 2 \<or> d = 3 \<or> d = 4 \<or> d = 5 \<or> d = 6 \<or> d = 7 \<or> d = 8 \<or> d = (9::nat)"
  by arith

lemma digit_value_digit_char: "d < 10 \<Longrightarrow> digit_value (digit_char d) = d"
  using digit_cases [of d] by (auto simp: digit_value_def digit_char_def)

lemma is_digit_digit_char: "d < 10 \<Longrightarrow> is_digit (digit_char d)"
  using digit_cases [of d] by (auto simp: is_digit_def digit_char_def)

lemma read_digits_snoc: "read_digits (s @ [c]) = 10 * read_digits s + digit_value c"
  by (simp add: read_digits_def)

lemma read_digits_dec_digits: "read_digits (dec_digits n) = n"
proof (induction n rule: dec_digits.induct)
  case (1 n)
  show ?case
  proof (cases "n < 10")
    case True
    then show ?thesis
      by (subst dec_digits.simps) (simp add: read_digits_def digit_value_digit_char)
  next
    case False
    with "1" have "read_digits (dec_digits (n div 10)) = n div 10" by simp
    with False show ?thesis
      by (subst dec_digits.simps) (simp add: read_digits_snoc digit_value_digit_char)
  qed
qed

lemma dec_digits_all_digits: "list_all is_digit (dec_digits n)"
proof (induction n rule: dec_digits.induct)
  case (1 n)
  show ?case
  proof (cases "n < 10")
    case True
    then show ?thesis
      by (subst dec_digits.simps) (simp add: is_digit_digit_char)
  next
    case False
    with "1" have "list_all is_digit (dec_digits (n div 10))" by simp
    with False show ?thesis
      by (subst dec_digits.simps) (simp add: is_digit_digit_char)
  qed
qed

lemma dec_digits_nonempty: "dec_digits n \<noteq> []"
  by (subst dec_digits.simps) simp

lemma dec_digits_hd_not_minus: "hd (dec_digits n) \<noteq> CHR ''-''"
  using dec_digits_all_digits [of n] dec_digits_nonempty [of n]
  by (cases "dec_digits n") (auto simp: is_digit_def)

lemma read_decimal_to_string: "read_decimal (to_string i) = i"
proof (cases "i < 0")
  case True
  then show ?thesis
    by (simp add: read_decimal_def to_string_def read_digits_dec_digits)
next
  case False
  obtain c cs where dd: "dec_digits (nat i) = c # cs"
    using dec_digits_nonempty [of "nat i"] by (cases "dec_digits (nat i)") auto
  with dec_digits_hd_not_minus [of "nat i"] have "c \<noteq> CHR ''-''" by simp
  with False dd read_digits_dec_digits [of "nat i"] show ?thesis
    by (simp add: read_decimal_def to_string_def)
qed

lemma is_decimal_numeral_to_string: "is_decimal_numeral (to_string i)"
proof (cases "i < 0")
  case True
  then show ?thesis
    by (simp add: is_decimal_numeral_def to_string_def dec_digits_nonempty dec_digits_all_digits)
next
  case False
  obtain c cs where dd: "dec_digits (nat i) = c # cs"
    using dec_digits_nonempty [of "nat i"] by (cases "dec_digits (nat i)") auto
  with dec_digits_hd_not_minus [of "nat i"] have "c \<noteq> CHR ''-''" by simp
  with False dd dec_digits_all_digits [of "nat i"] show ?thesis
    by (simp add: is_decimal_numeral_def to_string_def)
qed

lemma to_string_1: "to_string (sint (1 :: 32 word)) = ''1''"
  by (simp add: to_string_def dec_digits.simps digit_char_def)

lemma to_string_2: "to_string (sint (2 :: 32 word)) = ''2''"
  by (simp add: to_string_def dec_digits.simps digit_char_def)

subsection \<open>The two functions in terms of the runtime's answer\<close>

lemma invoke_cudaHostAlloc_eq:
  "cudaHostAlloc R (pool w) p0 sz flags = (err, p, s') \<Longrightarrow>
   invoke_cudaHostAlloc R p0 sz flags w =
     (err, p, \<lparr>pool = s', trace = trace w @ [HostAlloc_call sz flags]\<rparr>)"
  by (simp add: invoke_cudaHostAlloc_def)

lemma invoke_cudaFreeHost_eq:
  "cudaFreeHost R (pool w) p = (err, s') \<Longrightarrow>
   invoke_cudaFreeHost R p w = (err, \<lparr>pool = s', trace = trace w @ [FreeHost_call p]\<rparr>)"
  by (simp add: invoke_cudaFreeHost_def)

lemma alloc_pinned_ptr_eq:
  assumes "cudaHostAlloc R (pool w) nullptr sz flags = (err, p, s')"
  shows "alloc_pinned_ptr R sz flags w =
    (if err \<noteq> cudaSuccess
     then Inl (runtime_error (''cudaHostAlloc failed: '' @ to_string (sint err)))
     else Inr (addr_bits p),
     \<lparr>pool = s', trace = trace w @ [HostAlloc_call sz flags]\<rparr>)"
  using assms
  by (simp add: alloc_pinned_ptr_def invoke_cudaHostAlloc_eq reinterpret_cast_uintptr_t_def)

lemma free_pinned_ptr_eq:
  assumes "cudaFreeHost R (pool w) (Ptr h) = (err, s')"
  shows "free_pinned_ptr R h w =
    (if err \<noteq> cudaSuccess
     then Inl (runtime_error (''cudaFreeHost failed: '' @ to_string (sint err)))
     else Inr (),
     \<lparr>pool = s', trace = trace w @ [FreeHost_call (Ptr h)]\<rparr>)"
  using assms
  by (simp add: free_pinned_ptr_def invoke_cudaFreeHost_eq reinterpret_cast_void_ptr_def)

subsection \<open>Runs on the simulated runtime\<close>

lemmas sim_defs =
  sim_runtime_def sim_start_def sim_cudaHostAlloc_def sim_cudaFreeHost_def sim_capacity_def
  sim_fresh_def nullptr_def cudaSuccess_def cudaErrorInvalidValue_def cudaErrorMemoryAllocation_def
  strict_runtime_def strict_cudaFreeHost_def busy_world_def

lemma sim_alloc_ok:
  "alloc_pinned_ptr sim_runtime 4096 0 sim_start =
     (Inr 4096, \<lparr>pool = [4096], trace = [HostAlloc_call 4096 0]\<rparr>)"
  by (simp add: alloc_pinned_ptr_def invoke_cudaHostAlloc_def reinterpret_cast_uintptr_t_def sim_defs)

lemma sim_alloc_fail:
  "alloc_pinned_ptr sim_runtime 2097152 0 sim_start =
     (Inl (runtime_error ''cudaHostAlloc failed: 2''),
      \<lparr>pool = [], trace = [HostAlloc_call 2097152 0]\<rparr>)"
  by (simp add: alloc_pinned_ptr_def invoke_cudaHostAlloc_def reinterpret_cast_uintptr_t_def sim_defs
      to_string_def dec_digits.simps digit_char_def)

lemma sim_free_fail:
  "fst (free_pinned_ptr sim_runtime 8192 sim_start) = Inl (runtime_error ''cudaFreeHost failed: 1'')"
  by (simp add: free_pinned_ptr_def invoke_cudaFreeHost_def reinterpret_cast_void_ptr_def sim_defs
      to_string_def dec_digits.simps digit_char_def)

lemma sim_runtime_frees_live: "runtime_frees_live sim_runtime"
  by (auto simp: runtime_frees_live_def sim_runtime_def sim_cudaHostAlloc_def sim_cudaFreeHost_def
      cudaSuccess_def cudaErrorInvalidValue_def cudaErrorMemoryAllocation_def split: if_splits)

section \<open>Error reporting\<close>

text \<open>
  Claim C1. For every size and flags, \<^verbatim>\<open>alloc_pinned_ptr\<close> (Allocate) throws exactly when
  \<^verbatim>\<open>cudaHostAlloc\<close> reports a status other than \<^verbatim>\<open>cudaSuccess\<close>. The message of the
  exception thrown contains the status as \<^verbatim>\<open>std::to_string\<close> prints it, and when the
  runtime reports success a handle is returned and nothing is thrown.
\<close>

theorem alloc_raises_iff_status_not_success:
  assumes "cudaHostAlloc R (pool w) nullptr sz flags = (err, p, s')"
  shows "(isl (fst (alloc_pinned_ptr R sz flags w)) \<longleftrightarrow> err \<noteq> cudaSuccess) \<and>
         (err \<noteq> cudaSuccess \<longrightarrow>
            (\<exists>m. fst (alloc_pinned_ptr R sz flags w) = Inl (runtime_error m) \<and>
                 sublist (to_string (sint err)) m)) \<and>
         (err = cudaSuccess \<longrightarrow> (\<exists>a. fst (alloc_pinned_ptr R sz flags w) = Inr a))"
proof -
  have "sublist (to_string (sint err)) (''cudaHostAlloc failed: '' @ to_string (sint err))"
    by (rule sublist_append_leftI)
  then show ?thesis
    unfolding alloc_pinned_ptr_eq [OF assms] by auto
qed

theorem alloc_raises_iff_status_not_success_witness:
  "cudaHostAlloc sim_runtime (pool sim_start) nullptr 2097152 0 =
     (cudaErrorMemoryAllocation, nullptr, []) \<and>
   cudaErrorMemoryAllocation \<noteq> cudaSuccess \<and>
   isl (fst (alloc_pinned_ptr sim_runtime 2097152 0 sim_start)) \<and>
   (\<exists>m. fst (alloc_pinned_ptr sim_runtime 2097152 0 sim_start) = Inl (runtime_error m) \<and>
        sublist (to_string (sint cudaErrorMemoryAllocation)) m)"
proof -
  have h: "cudaHostAlloc sim_runtime (pool sim_start) nullptr 2097152 0 =
             (cudaErrorMemoryAllocation, nullptr, [])"
    by (simp add: sim_defs)
  have ne: "cudaErrorMemoryAllocation \<noteq> cudaSuccess"
    by (simp add: sim_defs)
  from alloc_raises_iff_status_not_success [OF h] h ne show ?thesis
    by simp
qed

text \<open>
  Claim C2. For every handle, \<^verbatim>\<open>free_pinned_ptr\<close> (Release) throws exactly when
  \<^verbatim>\<open>cudaFreeHost\<close> reports a status other than \<^verbatim>\<open>cudaSuccess\<close>. The message of the
  exception thrown contains the status as text, and when the runtime reports success the
  function returns normally, with no value.
\<close>

theorem free_raises_iff_status_not_success:
  assumes "cudaFreeHost R (pool w) (reinterpret_cast_void_ptr h) = (err, s')"
  shows "(isl (fst (free_pinned_ptr R h w)) \<longleftrightarrow> err \<noteq> cudaSuccess) \<and>
         (err \<noteq> cudaSuccess \<longrightarrow>
            (\<exists>m. fst (free_pinned_ptr R h w) = Inl (runtime_error m) \<and>
                 sublist (to_string (sint err)) m)) \<and>
         (err = cudaSuccess \<longrightarrow> fst (free_pinned_ptr R h w) = Inr ())"
proof -
  have "sublist (to_string (sint err)) (''cudaFreeHost failed: '' @ to_string (sint err))"
    by (rule sublist_append_leftI)
  moreover have "cudaFreeHost R (pool w) (Ptr h) = (err, s')"
    using assms by (simp add: reinterpret_cast_void_ptr_def)
  ultimately show ?thesis
    by (auto simp: free_pinned_ptr_eq)
qed

theorem free_raises_iff_status_not_success_witness:
  "cudaFreeHost sim_runtime (pool sim_start) (reinterpret_cast_void_ptr 8192) =
     (cudaErrorInvalidValue, []) \<and>
   cudaErrorInvalidValue \<noteq> cudaSuccess \<and>
   isl (fst (free_pinned_ptr sim_runtime 8192 sim_start)) \<and>
   (\<exists>m. fst (free_pinned_ptr sim_runtime 8192 sim_start) = Inl (runtime_error m) \<and>
        sublist (to_string (sint cudaErrorInvalidValue)) m)"
proof -
  have h: "cudaFreeHost sim_runtime (pool sim_start) (reinterpret_cast_void_ptr 8192) =
             (cudaErrorInvalidValue, [])"
    by (simp add: sim_defs reinterpret_cast_void_ptr_def)
  have ne: "cudaErrorInvalidValue \<noteq> cudaSuccess"
    by (simp add: sim_defs)
  from free_raises_iff_status_not_success [OF h] h ne show ?thesis
    by simp
qed

text \<open>
  Claim C9. Both functions throw the same exception type, \<^verbatim>\<open>std::runtime_error\<close>. What
  tells an allocation failure from a release failure is the message alone: the fixed prefix
  \<^verbatim>\<open>"cudaHostAlloc failed: "\<close> or \<^verbatim>\<open>"cudaFreeHost failed: "\<close>, followed by the status in
  decimal. Neither message starts with the other function's prefix.
\<close>

theorem both_functions_throw_runtime_error:
  assumes "cudaHostAlloc R (pool w) nullptr sz flags = (ea, pa, sa)"
    and "cudaFreeHost R' (pool w') (reinterpret_cast_void_ptr h) = (ef, sf)"
  shows "(fst (alloc_pinned_ptr R sz flags w) = Inl e \<longrightarrow>
            e = runtime_error (''cudaHostAlloc failed: '' @ to_string (sint ea)) \<and>
            \<not> prefix ''cudaFreeHost failed: '' (what e)) \<and>
         (fst (free_pinned_ptr R' h w') = Inl e' \<longrightarrow>
            e' = runtime_error (''cudaFreeHost failed: '' @ to_string (sint ef)) \<and>
            \<not> prefix ''cudaHostAlloc failed: '' (what e')) \<and>
         is_decimal_numeral (to_string (sint ea)) \<and> read_decimal (to_string (sint ea)) = sint ea \<and>
         is_decimal_numeral (to_string (sint ef)) \<and> read_decimal (to_string (sint ef)) = sint ef"
proof -
  have f: "cudaFreeHost R' (pool w') (Ptr h) = (ef, sf)"
    using assms(2) by (simp add: reinterpret_cast_void_ptr_def)
  show ?thesis
    by (auto simp: alloc_pinned_ptr_eq [OF assms(1)] free_pinned_ptr_eq [OF f]
        is_decimal_numeral_to_string read_decimal_to_string split: if_splits)
qed

theorem both_functions_throw_runtime_error_witness:
  "cudaHostAlloc sim_runtime (pool sim_start) nullptr 2097152 0 =
     (cudaErrorMemoryAllocation, nullptr, []) \<and>
   cudaFreeHost sim_runtime (pool sim_start) (reinterpret_cast_void_ptr 8192) =
     (cudaErrorInvalidValue, []) \<and>
   fst (alloc_pinned_ptr sim_runtime 2097152 0 sim_start) =
     Inl (runtime_error ''cudaHostAlloc failed: 2'') \<and>
   \<not> prefix ''cudaFreeHost failed: '' ''cudaHostAlloc failed: 2'' \<and>
   fst (free_pinned_ptr sim_runtime 8192 sim_start) =
     Inl (runtime_error ''cudaFreeHost failed: 1'') \<and>
   \<not> prefix ''cudaHostAlloc failed: '' ''cudaFreeHost failed: 1'' \<and>
   is_decimal_numeral (to_string (sint cudaErrorMemoryAllocation)) \<and>
   read_decimal (to_string (sint cudaErrorMemoryAllocation)) = 2 \<and>
   is_decimal_numeral (to_string (sint cudaErrorInvalidValue)) \<and>
   read_decimal (to_string (sint cudaErrorInvalidValue)) = 1"
proof -
  have a: "cudaHostAlloc sim_runtime (pool sim_start) nullptr 2097152 0 =
             (cudaErrorMemoryAllocation, nullptr, [])"
    by (simp add: sim_defs)
  have f: "cudaFreeHost sim_runtime (pool sim_start) (reinterpret_cast_void_ptr 8192) =
             (cudaErrorInvalidValue, [])"
    by (simp add: sim_defs reinterpret_cast_void_ptr_def)
  have ra: "fst (alloc_pinned_ptr sim_runtime 2097152 0 sim_start) =
              Inl (runtime_error ''cudaHostAlloc failed: 2'')"
    by (simp add: sim_alloc_fail)
  have va: "sint cudaErrorMemoryAllocation = 2" and vf: "sint cudaErrorInvalidValue = 1"
    by (simp_all add: sim_defs)
  from both_functions_throw_runtime_error
         [OF a f, of "runtime_error ''cudaHostAlloc failed: 2''"
                     "runtime_error ''cudaFreeHost failed: 1''"]
  show ?thesis
    by (simp add: a f ra sim_free_fail va vf)
qed

text \<open>
  Claim C7, as amended. \<^verbatim>\<open>free_pinned_ptr(0)\<close> hands the null pointer to
  \<^verbatim>\<open>cudaFreeHost\<close> like any other handle; the function has no check of its own for 0. It
  throws exactly when the runtime reports a status other than \<^verbatim>\<open>cudaSuccess\<close> for the
  null pointer, and returns normally when the runtime reports success.
\<close>

theorem release_null_raises_iff_runtime_rejects:
  assumes "cudaFreeHost R (pool w) nullptr = (err, s')"
  shows "(fst (free_pinned_ptr R 0 w) =
            Inl (runtime_error (''cudaFreeHost failed: '' @ to_string (sint err))) \<longleftrightarrow>
          err \<noteq> cudaSuccess) \<and>
         (fst (free_pinned_ptr R 0 w) = Inr () \<longleftrightarrow> err = cudaSuccess)"
proof -
  have "cudaFreeHost R (pool w) (Ptr 0) = (err, s')"
    using assms by (simp add: nullptr_def)
  then show ?thesis
    by (simp add: free_pinned_ptr_eq)
qed

theorem release_null_raises_iff_runtime_rejects_witness:
  "cudaFreeHost strict_runtime (pool sim_start) nullptr = (cudaErrorInvalidValue, []) \<and>
   cudaErrorInvalidValue \<noteq> cudaSuccess \<and>
   fst (free_pinned_ptr strict_runtime 0 sim_start) =
     Inl (runtime_error ''cudaFreeHost failed: 1'')"
proof -
  have h: "cudaFreeHost strict_runtime (pool sim_start) nullptr = (cudaErrorInvalidValue, [])"
    by (simp add: sim_defs)
  have ne: "cudaErrorInvalidValue \<noteq> cudaSuccess"
    by (simp add: sim_defs)
  from release_null_raises_iff_runtime_rejects [OF h] h ne to_string_1 show ?thesis
    by (simp add: cudaErrorInvalidValue_def)
qed

text \<open>
  Claim C7, as stated, says that \<^verbatim>\<open>free_pinned_ptr(0)\<close> throws. On a runtime for which
  freeing the null pointer is a successful no-operation it returns normally.
\<close>

theorem release_null_counterexample:
  "fst (free_pinned_ptr sim_runtime 0 sim_start) = Inr () \<and>
   \<not> isl (fst (free_pinned_ptr sim_runtime 0 sim_start))"
  by (simp add: free_pinned_ptr_def invoke_cudaFreeHost_def reinterpret_cast_void_ptr_def sim_defs)

section \<open>Arguments and results\<close>

text \<open>
  Claim C3. For every size and flags, \<^verbatim>\<open>alloc_pinned_ptr\<close> calls \<^verbatim>\<open>cudaHostAlloc\<close> with
  the size and the flags it was given, whatever they are, and on success returns the
  pointer the runtime stored, reinterpreted as an unsigned integer: casting the handle
  back gives that pointer.
\<close>

theorem alloc_passes_arguments_and_returns_pointer:
  assumes "cudaHostAlloc R (pool w) nullptr sz flags = (err, p, s')"
  shows "trace (snd (alloc_pinned_ptr R sz flags w)) = trace w @ [HostAlloc_call sz flags] \<and>
         (err = cudaSuccess \<longrightarrow>
            fst (alloc_pinned_ptr R sz flags w) = Inr (reinterpret_cast_uintptr_t p) \<and>
            reinterpret_cast_void_ptr (reinterpret_cast_uintptr_t p) = p)"
  unfolding alloc_pinned_ptr_eq [OF assms]
  by (simp add: reinterpret_cast_uintptr_t_def reinterpret_cast_void_ptr_def)

theorem alloc_passes_arguments_and_returns_pointer_witness:
  "cudaHostAlloc sim_runtime (pool sim_start) nullptr 4096 3 = (cudaSuccess, Ptr 4096, [4096]) \<and>
   trace (snd (alloc_pinned_ptr sim_runtime 4096 3 sim_start)) =
     trace sim_start @ [HostAlloc_call 4096 3] \<and>
   fst (alloc_pinned_ptr sim_runtime 4096 3 sim_start) = Inr 4096"
proof -
  have h: "cudaHostAlloc sim_runtime (pool sim_start) nullptr 4096 3 =
             (cudaSuccess, Ptr 4096, [4096])"
    by (simp add: sim_defs)
  from alloc_passes_arguments_and_returns_pointer [OF h] h show ?thesis
    by (simp add: reinterpret_cast_uintptr_t_def)
qed

text \<open>
  Claim C4. For every handle, \<^verbatim>\<open>free_pinned_ptr\<close> casts the handle to a pointer with the
  same bits and passes that pointer, and nothing else, to \<^verbatim>\<open>cudaFreeHost\<close>: the call
  logged is on that pointer, the runtime state afterwards is the one the runtime's own
  \<^verbatim>\<open>cudaFreeHost\<close> returns for that pointer, and the outcome follows the status the
  runtime reports for that pointer.
\<close>

theorem free_passes_reinterpreted_handle:
  "trace (snd (free_pinned_ptr R h w)) =
     trace w @ [FreeHost_call (reinterpret_cast_void_ptr h)] \<and>
   addr_bits (reinterpret_cast_void_ptr h) = h \<and>
   reinterpret_cast_uintptr_t (reinterpret_cast_void_ptr h) = h \<and>
   pool (snd (free_pinned_ptr R h w)) =
     snd (cudaFreeHost R (pool w) (reinterpret_cast_void_ptr h)) \<and>
   fst (free_pinned_ptr R h w) =
     (if fst (cudaFreeHost R (pool w) (reinterpret_cast_void_ptr h)) \<noteq> cudaSuccess
      then Inl (runtime_error (''cudaFreeHost failed: '' @
             to_string (sint (fst (cudaFreeHost R (pool w) (reinterpret_cast_void_ptr h))))))
      else Inr ())"
proof -
  obtain err s' where f: "cudaFreeHost R (pool w) (Ptr h) = (err, s')"
    by (cases "cudaFreeHost R (pool w) (Ptr h)") auto
  have cast: "reinterpret_cast_void_ptr h = Ptr h"
    by (simp add: reinterpret_cast_void_ptr_def)
  have bits: "reinterpret_cast_uintptr_t (Ptr h) = h"
    by (simp add: reinterpret_cast_uintptr_t_def)
  show ?thesis
    unfolding cast free_pinned_ptr_eq [OF f] f by (simp add: bits)
qed

theorem free_passes_reinterpreted_handle_witness:
  "pool (snd (free_pinned_ptr recording_runtime 4096 rec_start)) = [Ptr 4096] \<and>
   trace (snd (free_pinned_ptr recording_runtime 4096 rec_start)) = [FreeHost_call (Ptr 4096)] \<and>
   addr_bits (Ptr 4096) = 4096 \<and>
   fst (free_pinned_ptr recording_runtime 4096 rec_start) = Inr ()"
proof -
  have r: "cudaFreeHost recording_runtime (pool rec_start) (Ptr 4096) =
             (cudaSuccess, [Ptr 4096])"
    by (simp add: recording_runtime_def rec_cudaFreeHost_def rec_start_def nullptr_def)
  have c: "reinterpret_cast_void_ptr 4096 = Ptr 4096"
    by (simp add: reinterpret_cast_void_ptr_def)
  have t: "trace rec_start = []"
    by (simp add: rec_start_def)
  from free_passes_reinterpreted_handle [of recording_runtime 4096 rec_start]
  show ?thesis
    by (simp add: c r t)
qed

text \<open>
  Claim C10. \<^verbatim>\<open>alloc_pinned_ptr\<close> does not test the pointer on the success path: when the
  runtime reports \<^verbatim>\<open>cudaSuccess\<close> and leaves the local pointer at its initial
  \<^verbatim>\<open>nullptr\<close>, the function returns the handle 0 and throws nothing.
\<close>

theorem alloc_returns_null_handle_without_check:
  assumes "cudaHostAlloc R (pool w) nullptr sz flags = (cudaSuccess, nullptr, s')"
  shows "fst (alloc_pinned_ptr R sz flags w) = Inr 0"
  by (simp add: alloc_pinned_ptr_eq [OF assms] nullptr_def)

theorem alloc_returns_null_handle_without_check_witness:
  "cudaHostAlloc sim_runtime (pool sim_start) nullptr 0 0 = (cudaSuccess, nullptr, []) \<and>
   fst (alloc_pinned_ptr sim_runtime 0 0 sim_start) = Inr 0"
proof -
  have h: "cudaHostAlloc sim_runtime (pool sim_start) nullptr 0 0 = (cudaSuccess, nullptr, [])"
    by (simp add: sim_defs)
  from alloc_returns_null_handle_without_check [OF h] h show ?thesis
    by simp
qed

section \<open>Round trip, call count and statelessness\<close>

text \<open>
  Claim C5. For every size above 0 and all flags, when \<^verbatim>\<open>alloc_pinned_ptr\<close> succeeds
  with handle \<open>A\<close>, \<^verbatim>\<open>free_pinned_ptr(A)\<close> called next succeeds and throws nothing,
  on every runtime that frees live pinned allocations (\<open>runtime_frees_live\<close>).
\<close>

theorem alloc_then_free_round_trip:
  assumes "runtime_frees_live R" and "0 < sz"
    and "alloc_pinned_ptr R sz flags w = (Inr A, w')"
  shows "fst (free_pinned_ptr R A w') = Inr ()"
proof -
  obtain err p s' where call: "cudaHostAlloc R (pool w) nullptr sz flags = (err, p, s')"
    by (cases "cudaHostAlloc R (pool w) nullptr sz flags") auto
  from assms(3) have ok: "err = cudaSuccess" and A: "A = addr_bits p"
    and w': "w' = \<lparr>pool = s', trace = trace w @ [HostAlloc_call sz flags]\<rparr>"
    unfolding alloc_pinned_ptr_eq [OF call] by (auto split: if_splits)
  from assms(1,2) call ok have "fst (cudaFreeHost R s' p) = cudaSuccess"
    unfolding runtime_frees_live_def by blast
  then obtain s'' where "cudaFreeHost R (pool w') (Ptr A) = (cudaSuccess, s'')"
    using A w' by (cases "cudaFreeHost R s' p") auto
  then show ?thesis
    by (simp add: free_pinned_ptr_eq)
qed

theorem alloc_then_free_round_trip_witness:
  "runtime_frees_live sim_runtime \<and> (0 :: size_t) < 4096 \<and>
   alloc_pinned_ptr sim_runtime 4096 0 sim_start =
     (Inr 4096, \<lparr>pool = [4096], trace = [HostAlloc_call 4096 0]\<rparr>) \<and>
   fst (free_pinned_ptr sim_runtime 4096 \<lparr>pool = [4096], trace = [HostAlloc_call 4096 0]\<rparr>) =
     Inr ()"
proof -
  have pos: "(0 :: size_t) < 4096" by simp
  from alloc_then_free_round_trip [OF sim_runtime_frees_live pos sim_alloc_ok]
    sim_runtime_frees_live sim_alloc_ok show ?thesis
    by simp
qed

text \<open>
  Claim C6. Each of the two functions makes exactly one runtime call per invocation,
  whether the call fails or succeeds: the call log grows by one entry, and the runtime
  state afterwards is the state that single call left, with no retry and no compensating
  call.
\<close>

theorem one_runtime_call_per_invocation:
  "length (trace (snd (alloc_pinned_ptr R sz flags w))) = Suc (length (trace w)) \<and>
   pool (snd (alloc_pinned_ptr R sz flags w)) =
     snd (snd (cudaHostAlloc R (pool w) nullptr sz flags)) \<and>
   length (trace (snd (free_pinned_ptr R h w))) = Suc (length (trace w)) \<and>
   pool (snd (free_pinned_ptr R h w)) =
     snd (cudaFreeHost R (pool w) (reinterpret_cast_void_ptr h))"
proof -
  obtain e1 p1 s1 where a: "cudaHostAlloc R (pool w) nullptr sz flags = (e1, p1, s1)"
    by (cases "cudaHostAlloc R (pool w) nullptr sz flags") auto
  obtain e2 s2 where f: "cudaFreeHost R (pool w) (Ptr h) = (e2, s2)"
    by (cases "cudaFreeHost R (pool w) (Ptr h)") auto
  show ?thesis
    by (simp add: alloc_pinned_ptr_eq [OF a] free_pinned_ptr_eq [OF f] a f
        reinterpret_cast_void_ptr_def)
qed

text \<open>
  Claim C8. The two functions keep no state of their own: what a call returns or throws
  is determined by its arguments and by the answer of the one runtime call it makes. Two
  runs with equal arguments, on any two runtimes in any two states and with any two call
  logs, give the same result as soon as the runtime answers (status and stored pointer for
  \<^verbatim>\<open>cudaHostAlloc\<close>, status for \<^verbatim>\<open>cudaFreeHost\<close>) are equal.
\<close>

theorem result_determined_by_arguments_and_response:
  "(fst (cudaHostAlloc R1 (pool w1) nullptr sz flags) =
      fst (cudaHostAlloc R2 (pool w2) nullptr sz flags) \<and>
    fst (snd (cudaHostAlloc R1 (pool w1) nullptr sz flags)) =
      fst (snd (cudaHostAlloc R2 (pool w2) nullptr sz flags)) \<longrightarrow>
    fst (alloc_pinned_ptr R1 sz flags w1) = fst (alloc_pinned_ptr R2 sz flags w2)) \<and>
   (fst (cudaFreeHost R1 (pool w1) (reinterpret_cast_void_ptr h)) =
      fst (cudaFreeHost R2 (pool w2) (reinterpret_cast_void_ptr h)) \<longrightarrow>
    fst (free_pinned_ptr R1 h w1) = fst (free_pinned_ptr R2 h w2))"
proof -
  obtain e1 p1 s1 where a1: "cudaHostAlloc R1 (pool w1) nullptr sz flags = (e1, p1, s1)"
    by (cases "cudaHostAlloc R1 (pool w1) nullptr sz flags") auto
  obtain e2 p2 s2 where a2: "cudaHostAlloc R2 (pool w2) nullptr sz flags = (e2, p2, s2)"
    by (cases "cudaHostAlloc R2 (pool w2) nullptr sz flags") auto
  obtain e3 s3 where f1: "cudaFreeHost R1 (pool w1) (Ptr h) = (e3, s3)"
    by (cases "cudaFreeHost R1 (pool w1) (Ptr h)") auto
  obtain e4 s4 where f2: "cudaFreeHost R2 (pool w2) (Ptr h) = (e4, s4)"
    by (cases "cudaFreeHost R2 (pool w2) (Ptr h)") auto
  show ?thesis
    by (simp add: alloc_pinned_ptr_eq [OF a1] alloc_pinned_ptr_eq [OF a2]
        free_pinned_ptr_eq [OF f1] free_pinned_ptr_eq [OF f2] a1 a2 f1 f2
        reinterpret_cast_void_ptr_def)
qed

theorem result_determined_by_arguments_and_response_witness:
  "fst (cudaHostAlloc sim_runtime (pool sim_start) nullptr 2097152 0) = cudaErrorMemoryAllocation \<and>
   fst (cudaHostAlloc strict_runtime (pool busy_world) nullptr 2097152 0) =
     cudaErrorMemoryAllocation \<and>
   fst (snd (cudaHostAlloc sim_runtime (pool sim_start) nullptr 2097152 0)) = nullptr \<and>
   fst (snd (cudaHostAlloc strict_runtime (pool busy_world) nullptr 2097152 0)) = nullptr \<and>
   fst (alloc_pinned_ptr sim_runtime 2097152 0 sim_start) =
     fst (alloc_pinned_ptr strict_runtime 2097152 0 busy_world) \<and>
   fst (cudaFreeHost sim_runtime (pool sim_start) (reinterpret_cast_void_ptr 8192)) =
     cudaErrorInvalidValue \<and>
   fst (cudaFreeHost strict_runtime (pool busy_world) (reinterpret_cast_void_ptr 8192)) =
     cudaErrorInvalidValue \<and>
   fst (free_pinned_ptr sim_runtime 8192 sim_start) =
     fst (free_pinned_ptr strict_runtime 8192 busy_world)"
proof -
  have a: "cudaHostAlloc sim_runtime (pool sim_start) nullptr 2097152 0 =
             (cudaErrorMemoryAllocation, nullptr, [])"
    by (simp add: sim_defs)
  have b: "cudaHostAlloc strict_runtime (pool busy_world) nullptr 2097152 0 =
             (cudaErrorMemoryAllocation, nullptr, [4096])"
    by (simp add: sim_defs)
  have c: "cudaFreeHost sim_runtime (pool sim_start) (reinterpret_cast_void_ptr 8192) =
             (cudaErrorInvalidValue, [])"
    by (simp add: sim_defs reinterpret_cast_void_ptr_def)
  have d: "cudaFreeHost strict_runtime (pool busy_world) (reinterpret_cast_void_ptr 8192) =
             (cudaErrorInvalidValue, [4096])"
    by (simp add: sim_defs reinterpret_cast_void_ptr_def)
  from result_determined_by_arguments_and_response
         [of sim_runtime sim_start 2097152 0 strict_runtime busy_world 8192]
  show ?thesis
    by (simp add: a b c d)
qed

end
